theory Spec2Isabelle
  imports Complex_Main "HOL-Library.AList"
begin

section \<open>Values\<close>

text \<open>
  Primary keys are UUIDs; the model keeps them in their canonical text form, which is what
  the WebSocket route hands to the consumer and what \<^verbatim>\<open>f"dj_session_{session.id}"\<close> prints.
  Users are identified by their key. A \<^verbatim>\<open>datetime\<close> is a point on a discrete time line;
  every call of \<^verbatim>\<open>timezone.now()\<close> is an argument of the operation that makes it, so
  nothing is assumed about the clock.
\<close>

type_synonym uuid = string
type_synonym user = nat
type_synonym datetime = nat

text \<open>
  JSON values as Python holds them after \<^verbatim>\<open>json.loads\<close>: \<^verbatim>\<open>None\<close>, \<^verbatim>\<open>bool\<close>,
  \<^verbatim>\<open>int\<close>, \<^verbatim>\<open>float\<close> (a real number here: no operation of the modelled code rounds),
  \<^verbatim>\<open>str\<close>, \<^verbatim>\<open>list\<close> and \<^verbatim>\<open>dict\<close> (insertion-ordered, so an association list).
\<close>

datatype json =
    JNull
  | JBool bool
  | JInt int
  | JFloat real
  | JStr string
  | JList "json list"
  | JObj "(string \<times> json) list"

type_synonym pydict = "(string \<times> json) list"

text \<open>\<^verbatim>\<open>d.get(key, default)\<close>\<close>

definition dict_get :: "pydict \<Rightarrow> string \<Rightarrow> json \<Rightarrow> json" where
  "dict_get d k dflt = (case map_of d k of None \<Rightarrow> dflt | Some v \<Rightarrow> v)"

text \<open>\<^verbatim>\<open>str(n)\<close> for a non-negative integer, used by the f-strings.\<close>

definition digit_char :: "nat \<Rightarrow> char" where
  "digit_char d = char_of (48 + d)"

function str_nat :: "nat \<Rightarrow> string" where
  "str_nat n = (if n < 10 then [digit_char n] else str_nat (n div 10) @ [digit_char (n mod 10)])"
  by pat_completeness auto
termination
  by (relation "measure (\<lambda>n. n)") auto

declare str_nat.simps [simp del]

text \<open>Python's \<^verbatim>\<open>max(a, b)\<close> returns \<^verbatim>\<open>a\<close> unless \<^verbatim>\<open>b > a\<close>.\<close>

definition py_max :: "real \<Rightarrow> real \<Rightarrow> real" where
  "py_max a b = (if b > a then b else a)"

section \<open>Data model (models.py)\<close>

record DJSession =
  dj :: user
  station :: "uuid option"
  session_name :: string
  description :: string
  started_at :: datetime
  ended_at :: "datetime option"
  is_live :: bool
  is_recording :: bool
  sample_rate :: nat
  bit_depth :: nat
  channels :: nat
  current_listeners :: nat
  peak_listeners :: nat
  master_level_left :: real
  master_level_right :: real
  channel_a_level :: real
  channel_b_level :: real
  crossfader_position :: real
  master_volume :: real
  created_at :: datetime
  updated_at :: datetime

text \<open>\<^verbatim>\<open>DJSession.is_active\<close>\<close>

definition is_active :: "DJSession \<Rightarrow> bool" where
  "is_active s = (ended_at s = None)"

datatype deck = Deck_A | Deck_B

record DJTrackInstance =
  id :: uuid
  session :: uuid
  track :: "uuid option"
  track_title :: string
  track_artist :: string
  track_duration :: "real option"
  deck :: deck
  started_at :: datetime
  ended_at :: "datetime option"
  current_position :: real
  playback_speed :: real
  is_playing :: bool
  is_looping :: bool
  volume :: real
  eq_low :: real
  eq_mid :: real
  eq_high :: real
  detected_bpm :: "real option"
  manual_bpm :: "real option"
  is_synced :: bool
  cue_points :: pydict
  hot_cues :: pydict
  created_at :: datetime
  updated_at :: datetime

record AudioLevelSnapshot =
  id :: uuid
  session :: uuid
  timestamp :: datetime
  master_left :: real
  master_right :: real
  master_peak_left :: real
  master_peak_right :: real
  channel_a_left :: real
  channel_a_right :: real
  channel_b_left :: real
  channel_b_right :: real
  channel_a_peak :: real
  channel_b_peak :: real
  frequency_data :: "json option"

record LiveStreamMetrics =
  id :: uuid
  session :: uuid
  timestamp :: datetime
  current_listeners :: nat
  unique_listeners :: nat
  bitrate :: nat
  dropped_frames :: nat
  buffer_health :: real
  bandwidth_usage :: nat
  latency :: "real option"
  listener_locations :: "json option"

text \<open>
  The relational store: the session table keyed by primary key, the child tables as
  their rows.
\<close>

record store =
  sessions :: "uuid \<rightharpoonup> DJSession"
  tracks :: "DJTrackInstance list"
  snapshots :: "AudioLevelSnapshot list"
  metrics :: "LiveStreamMetrics list"

section \<open>Responses and published events\<close>

text \<open>
  A new row takes its key from \<^verbatim>\<open>uuid.uuid4\<close>; the key is an argument of the creating
  operation. Inserting a key that the table already holds violates the primary key, the
  exception is not caught, and the request ends in a 500 with nothing written.
\<close>

datatype 'a response =
    Response200 string 'a
  | Response201 'a
  | Response204
  | Response400 string
  | Http404
  | Response500

text \<open>
  What \<^verbatim>\<open>channel_layer.group_send(group, event)\<close> is given: the handler name in the
  event's \<^verbatim>\<open>type\<close> is the constructor, the rest its arguments.
\<close>

datatype event =
    Session_event string uuid DJSession
  | Session_update uuid DJSession
  | Track_event string uuid deck DJTrackInstance
  | Track_update uuid deck DJTrackInstance
  | Audio_levels AudioLevelSnapshot
  | Stream_metrics LiveStreamMetrics
  | Audio_levels_update json
  | Mixer_state_update json
  | Track_control_update json
  | Listener_count_update json

type_synonym published = "(string \<times> event) list"

definition room_group :: "uuid \<Rightarrow> string" where
  "room_group sid = ''dj_session_'' @ sid"

section \<open>Saving a session row\<close>

text \<open>
  \<^verbatim>\<open>session.save()\<close> writes every column of the in-memory object and stamps
  \<^verbatim>\<open>updated_at\<close> (\<^verbatim>\<open>auto_now\<close>).
\<close>

definition save_session :: "store \<Rightarrow> uuid \<Rightarrow> DJSession \<Rightarrow> datetime \<Rightarrow> store" where
  "save_session st pk obj tsave =
     st\<lparr>sessions := (sessions st)(pk \<mapsto> obj\<lparr>DJSession.updated_at := tsave\<rparr>)\<rparr>"

text \<open>
  \<^verbatim>\<open>session.save(update_fields=[...])\<close> writes only the named columns of the in-memory
  object into the row; \<^verbatim>\<open>updated_at\<close> is not among them, so it is not stamped.
\<close>

datatype session_column =
    Col_current_listeners
  | Col_peak_listeners
  | Col_master_level_left
  | Col_master_level_right
  | Col_channel_a_level
  | Col_channel_b_level

fun write_column :: "session_column \<Rightarrow> DJSession \<Rightarrow> DJSession \<Rightarrow> DJSession" where
  "write_column Col_current_listeners obj row =
     row\<lparr>DJSession.current_listeners := DJSession.current_listeners obj\<rparr>"
| "write_column Col_peak_listeners obj row = row\<lparr>peak_listeners := peak_listeners obj\<rparr>"
| "write_column Col_master_level_left obj row =
     row\<lparr>master_level_left := master_level_left obj\<rparr>"
| "write_column Col_master_level_right obj row =
     row\<lparr>master_level_right := master_level_right obj\<rparr>"
| "write_column Col_channel_a_level obj row = row\<lparr>channel_a_level := channel_a_level obj\<rparr>"
| "write_column Col_channel_b_level obj row = row\<lparr>channel_b_level := channel_b_level obj\<rparr>"

definition save_update_fields ::
  "store \<Rightarrow> uuid \<Rightarrow> DJSession \<Rightarrow> session_column list \<Rightarrow> store" where
  "save_update_fields st pk obj cols =
     (case sessions st pk of
        None \<Rightarrow> st
      | Some row \<Rightarrow>
          st\<lparr>sessions := (sessions st)(pk \<mapsto> fold (\<lambda>c. write_column c obj) cols row)\<rparr>)"

section \<open>DJSessionViewSet (views.py)\<close>

text \<open>
  \<^verbatim>\<open>get_object()\<close> over \<^verbatim>\<open>DJSession.objects.filter(dj=user)\<close>: the row with that key,
  if the caller owns it; otherwise the request ends in a 404.
\<close>

definition get_session_object :: "store \<Rightarrow> user \<Rightarrow> uuid \<Rightarrow> DJSession option" where
  "get_session_object st u pk =
     (case sessions st pk of
        None \<Rightarrow> None
      | Some s \<Rightarrow> if dj s = u then Some s else None)"

definition start_session ::
  "store \<Rightarrow> user \<Rightarrow> uuid \<Rightarrow> datetime \<Rightarrow> datetime \<Rightarrow> DJSession response \<times> store \<times> published" where
  "start_session st u pk now tsave =
     (case get_session_object st u pk of
        None \<Rightarrow> (Http404, st, [])
      | Some s \<Rightarrow>
          if is_live s then (Response400 ''Session is already live'', st, [])
          else
            let s1 = s\<lparr>is_live := True, DJSession.started_at := now\<rparr>;
                st1 = save_session st pk s1 tsave;
                s2 = s1\<lparr>DJSession.updated_at := tsave\<rparr>
            in (Response200 ''Session started'' s2, st1,
                [(room_group pk, Session_event ''session_started'' pk s2)]))"

text \<open>
  \<^verbatim>\<open>end_session\<close> reads the clock twice: \<open>now\<close> for the session, \<open>now2\<close> for the
  bulk update of the session's active track instances.
\<close>

definition end_active_tracks :: "uuid \<Rightarrow> datetime \<Rightarrow> DJTrackInstance list \<Rightarrow> DJTrackInstance list" where
  "end_active_tracks pk now2 rows =
     map (\<lambda>t. if DJTrackInstance.session t = pk \<and> DJTrackInstance.ended_at t = None
              then t\<lparr>DJTrackInstance.ended_at := Some now2, is_playing := False\<rparr>
              else t) rows"

definition end_session ::
  "store \<Rightarrow> user \<Rightarrow> uuid \<Rightarrow> datetime \<Rightarrow> datetime \<Rightarrow> datetime
     \<Rightarrow> DJSession response \<times> store \<times> published" where
  "end_session st u pk now tsave now2 =
     (case get_session_object st u pk of
        None \<Rightarrow> (Http404, st, [])
      | Some s \<Rightarrow>
          if \<not> is_live s then (Response400 ''Session is not currently live'', st, [])
          else
            let s1 = s\<lparr>is_live := False, DJSession.ended_at := Some now\<rparr>;
                st1 = save_session st pk s1 tsave;
                s2 = s1\<lparr>DJSession.updated_at := tsave\<rparr>;
                st2 = st1\<lparr>tracks := end_active_tracks pk now2 (tracks st1)\<rparr>
            in (Response200 ''Session ended'' s2, st2,
                [(room_group pk, Session_event ''session_ended'' pk s2)]))"

text \<open>
  \<^verbatim>\<open>perform_create\<close> with \<^verbatim>\<open>DJSessionCreateSerializer\<close>: the body carries the six
  writable fields; the serializer's validators bound \<^verbatim>\<open>bit_depth\<close> and \<^verbatim>\<open>channels\<close>;
  every other column takes its model default. The key of the new row and the two
  readings of the clock (the default of \<^verbatim>\<open>started_at\<close>, and the stamps at save time)
  are arguments.
\<close>

record session_create_body =
  session_name :: string
  description :: string
  station :: "uuid option"
  sample_rate :: nat
  bit_depth :: nat
  channels :: nat

definition new_session :: "user \<Rightarrow> session_create_body \<Rightarrow> datetime \<Rightarrow> datetime \<Rightarrow> DJSession" where
  "new_session u body now tsave =
     \<lparr>dj = u, station = session_create_body.station body,
      session_name = session_create_body.session_name body,
      description = session_create_body.description body,
      started_at = now, ended_at = None, is_live = False, is_recording = False,
      sample_rate = session_create_body.sample_rate body,
      bit_depth = session_create_body.bit_depth body,
      channels = session_create_body.channels body,
      current_listeners = 0, peak_listeners = 0,
      master_level_left = 0, master_level_right = 0,
      channel_a_level = 0, channel_b_level = 0,
      crossfader_position = 0, master_volume = 0.8,
      created_at = tsave, updated_at = tsave\<rparr>"

definition create_session ::
  "store \<Rightarrow> user \<Rightarrow> session_create_body \<Rightarrow> uuid \<Rightarrow> datetime \<Rightarrow> datetime
     \<Rightarrow> DJSession response \<times> store \<times> published" where
  "create_session st u body new_id now tsave =
     (if \<not> (8 \<le> session_create_body.bit_depth body \<and> session_create_body.bit_depth body \<le> 32)
      then (Response400 ''bit_depth'', st, [])
      else if \<not> (1 \<le> session_create_body.channels body \<and> session_create_body.channels body \<le> 8)
      then (Response400 ''channels'', st, [])
      else if sessions st new_id \<noteq> None then (Response500, st, [])
      else
        let s = new_session u body now tsave
        in (Response201 s, st\<lparr>sessions := (sessions st)(new_id \<mapsto> s)\<rparr>,
            [(room_group new_id, Session_event ''session_created'' new_id s)]))"

text \<open>
  \<^verbatim>\<open>perform_update\<close> with \<^verbatim>\<open>DJSessionUpdateSerializer\<close>: the body assigns any of the
  nine writable fields, each checked by the validators of its model field.
\<close>

datatype session_assign =
    Set_is_live bool
  | Set_is_recording bool
  | Set_current_listeners nat
  | Set_master_level_left real
  | Set_master_level_right real
  | Set_channel_a_level real
  | Set_channel_b_level real
  | Set_crossfader_position real
  | Set_master_volume real

definition unit_range :: "real \<Rightarrow> bool" where
  "unit_range x = (0 \<le> x \<and> x \<le> 1)"

definition sym_range :: "real \<Rightarrow> bool" where
  "sym_range x = (-1 \<le> x \<and> x \<le> 1)"

fun session_assign_valid :: "session_assign \<Rightarrow> bool" where
  "session_assign_valid (Set_master_level_left x) = unit_range x"
| "session_assign_valid (Set_master_level_right x) = unit_range x"
| "session_assign_valid (Set_channel_a_level x) = unit_range x"
| "session_assign_valid (Set_channel_b_level x) = unit_range x"
| "session_assign_valid (Set_crossfader_position x) = sym_range x"
| "session_assign_valid (Set_master_volume x) = unit_range x"
| "session_assign_valid _ = True"

fun session_assign_apply :: "session_assign \<Rightarrow> DJSession \<Rightarrow> DJSession" where
  "session_assign_apply (Set_is_live b) s = s\<lparr>is_live := b\<rparr>"
| "session_assign_apply (Set_is_recording b) s = s\<lparr>is_recording := b\<rparr>"
| "session_assign_apply (Set_current_listeners n) s = s\<lparr>DJSession.current_listeners := n\<rparr>"
| "session_assign_apply (Set_master_level_left x) s = s\<lparr>master_level_left := x\<rparr>"
| "session_assign_apply (Set_master_level_right x) s = s\<lparr>master_level_right := x\<rparr>"
| "session_assign_apply (Set_channel_a_level x) s = s\<lparr>channel_a_level := x\<rparr>"
| "session_assign_apply (Set_channel_b_level x) s = s\<lparr>channel_b_level := x\<rparr>"
| "session_assign_apply (Set_crossfader_position x) s = s\<lparr>crossfader_position := x\<rparr>"
| "session_assign_apply (Set_master_volume x) s = s\<lparr>master_volume := x\<rparr>"

definition update_session ::
  "store \<Rightarrow> user \<Rightarrow> uuid \<Rightarrow> session_assign list \<Rightarrow> datetime
     \<Rightarrow> DJSession response \<times> store \<times> published" where
  "update_session st u pk body tsave =
     (case get_session_object st u pk of
        None \<Rightarrow> (Http404, st, [])
      | Some s \<Rightarrow>
          if \<not> list_all session_assign_valid body then (Response400 ''invalid'', st, [])
          else
            let s1 = fold session_assign_apply body s;
                st1 = save_session st pk s1 tsave;
                s2 = s1\<lparr>DJSession.updated_at := tsave\<rparr>
            in (Response200 [] s2, st1, [(room_group pk, Session_update pk s2)]))"

text \<open>
  \<^verbatim>\<open>destroy\<close> (inherited from \<^verbatim>\<open>ModelViewSet\<close>): the row goes, and with it, by
  \<^verbatim>\<open>on_delete=CASCADE\<close>, the session's rows of the child tables.
\<close>

definition destroy_session :: "store \<Rightarrow> user \<Rightarrow> uuid \<Rightarrow> DJSession response \<times> store \<times> published" where
  "destroy_session st u pk =
     (case get_session_object st u pk of
        None \<Rightarrow> (Http404, st, [])
      | Some s \<Rightarrow>
          (Response204,
           st\<lparr>sessions := (sessions st)(pk := None),
              tracks := filter (\<lambda>t. DJTrackInstance.session t \<noteq> pk) (tracks st),
              snapshots := filter (\<lambda>a. AudioLevelSnapshot.session a \<noteq> pk) (snapshots st),
              metrics := filter (\<lambda>m. LiveStreamMetrics.session m \<noteq> pk) (metrics st)\<rparr>,
           []))"

section \<open>DJTrackInstanceViewSet (views.py, serializers.py)\<close>

text \<open>
  \<^verbatim>\<open>get_queryset\<close>: the optional \<^verbatim>\<open>session_id\<close> query parameter filters when it is
  non-empty; only track instances of the caller's sessions are visible.
\<close>

definition track_queryset :: "store \<Rightarrow> user \<Rightarrow> uuid option \<Rightarrow> DJTrackInstance list" where
  "track_queryset st u session_id =
     filter (\<lambda>t. (case session_id of
                    None \<Rightarrow> True
                  | Some sid \<Rightarrow> sid = [] \<or> DJTrackInstance.session t = sid)
               \<and> (case sessions st (DJTrackInstance.session t) of
                    None \<Rightarrow> False
                  | Some s \<Rightarrow> dj s = u))
       (tracks st)"

definition get_track_object ::
  "store \<Rightarrow> user \<Rightarrow> uuid option \<Rightarrow> uuid \<Rightarrow> DJTrackInstance option" where
  "get_track_object st u session_id pk =
     find (\<lambda>t. DJTrackInstance.id t = pk) (track_queryset st u session_id)"

text \<open>\<^verbatim>\<open>track_instance.save()\<close>: the row with the object's key is rewritten.\<close>

definition save_track :: "store \<Rightarrow> DJTrackInstance \<Rightarrow> datetime \<Rightarrow> store" where
  "save_track st obj tsave =
     st\<lparr>tracks := map (\<lambda>r. if DJTrackInstance.id r = DJTrackInstance.id obj
                            then obj\<lparr>DJTrackInstance.updated_at := tsave\<rparr> else r)
                     (tracks st)\<rparr>"

text \<open>
  \<^verbatim>\<open>DJTrackInstanceCreateSerializer\<close>: the body carries the six writable fields. The
  \<^verbatim>\<open>session\<close> field is a primary-key field, so a key with no row fails field
  validation; \<^verbatim>\<open>validate\<close> then looks for an active instance on the deck.
\<close>

record track_create_body =
  session :: uuid
  track :: "uuid option"
  track_title :: string
  track_artist :: string
  track_duration :: "real option"
  deck :: deck

definition deck_name :: "deck \<Rightarrow> string" where
  "deck_name d = (case d of Deck_A \<Rightarrow> ''A'' | Deck_B \<Rightarrow> ''B'')"

definition deck_occupied :: "store \<Rightarrow> uuid \<Rightarrow> deck \<Rightarrow> bool" where
  "deck_occupied st sid d =
     list_ex (\<lambda>t. DJTrackInstance.session t = sid \<and> DJTrackInstance.deck t = d
                 \<and> DJTrackInstance.ended_at t = None) (tracks st)"

definition conflict_message :: "deck \<Rightarrow> string" where
  "conflict_message d = ''Deck '' @ deck_name d @ '' already has an active track in this session''"

definition validate_track_create :: "store \<Rightarrow> track_create_body \<Rightarrow> string option" where
  "validate_track_create st body =
     (if deck_occupied st (track_create_body.session body) (track_create_body.deck body)
      then Some (conflict_message (track_create_body.deck body))
      else None)"

definition new_track :: "track_create_body \<Rightarrow> uuid \<Rightarrow> datetime \<Rightarrow> datetime \<Rightarrow> DJTrackInstance" where
  "new_track body new_id now tsave =
     \<lparr>DJTrackInstance.id = new_id,
      DJTrackInstance.session = track_create_body.session body,
      DJTrackInstance.track = track_create_body.track body,
      DJTrackInstance.track_title = track_create_body.track_title body,
      DJTrackInstance.track_artist = track_create_body.track_artist body,
      DJTrackInstance.track_duration = track_create_body.track_duration body,
      DJTrackInstance.deck = track_create_body.deck body,
      DJTrackInstance.started_at = now, DJTrackInstance.ended_at = None,
      current_position = 0, playback_speed = 1, is_playing = False, is_looping = False,
      volume = 0.8, eq_low = 0, eq_mid = 0, eq_high = 0,
      detected_bpm = None, manual_bpm = None, is_synced = False,
      cue_points = [], hot_cues = [],
      DJTrackInstance.created_at = tsave, DJTrackInstance.updated_at = tsave\<rparr>"

definition create_track ::
  "store \<Rightarrow> track_create_body \<Rightarrow> uuid \<Rightarrow> datetime \<Rightarrow> datetime
     \<Rightarrow> DJTrackInstance response \<times> store \<times> published" where
  "create_track st body new_id now tsave =
     (if sessions st (track_create_body.session body) = None
      then (Response400 ''Invalid pk - object does not exist.'', st, [])
      else case validate_track_create st body of
        Some msg \<Rightarrow> (Response400 msg, st, [])
      | None \<Rightarrow>
          if new_id \<in> set (map DJTrackInstance.id (tracks st)) then (Response500, st, [])
          else
            let t = new_track body new_id now tsave
            in (Response201 t, st\<lparr>tracks := tracks st @ [t]\<rparr>, []))"

text \<open>
  \<^verbatim>\<open>perform_update\<close> with \<^verbatim>\<open>DJTrackInstanceUpdateSerializer\<close>: the body assigns any
  of the twelve writable fields; neither the deck, the session nor \<^verbatim>\<open>ended_at\<close> is
  among them.
\<close>

datatype track_assign =
    Set_current_position real
  | Set_playback_speed real
  | Set_is_playing bool
  | Set_is_looping bool
  | Set_volume real
  | Set_eq_low real
  | Set_eq_mid real
  | Set_eq_high real
  | Set_manual_bpm "real option"
  | Set_is_synced bool
  | Set_cue_points pydict
  | Set_hot_cues pydict

fun track_assign_valid :: "track_assign \<Rightarrow> bool" where
  "track_assign_valid (Set_playback_speed x) = (0.1 \<le> x \<and> x \<le> 3)"
| "track_assign_valid (Set_volume x) = unit_range x"
| "track_assign_valid (Set_eq_low x) = sym_range x"
| "track_assign_valid (Set_eq_mid x) = sym_range x"
| "track_assign_valid (Set_eq_high x) = sym_range x"
| "track_assign_valid (Set_manual_bpm (Some x)) = (60 \<le> x \<and> x \<le> 200)"
| "track_assign_valid _ = True"

fun track_assign_apply :: "track_assign \<Rightarrow> DJTrackInstance \<Rightarrow> DJTrackInstance" where
  "track_assign_apply (Set_current_position x) t = t\<lparr>current_position := x\<rparr>"
| "track_assign_apply (Set_playback_speed x) t = t\<lparr>playback_speed := x\<rparr>"
| "track_assign_apply (Set_is_playing b) t = t\<lparr>is_playing := b\<rparr>"
| "track_assign_apply (Set_is_looping b) t = t\<lparr>is_looping := b\<rparr>"
| "track_assign_apply (Set_volume x) t = t\<lparr>volume := x\<rparr>"
| "track_assign_apply (Set_eq_low x) t = t\<lparr>eq_low := x\<rparr>"
| "track_assign_apply (Set_eq_mid x) t = t\<lparr>eq_mid := x\<rparr>"
| "track_assign_apply (Set_eq_high x) t = t\<lparr>eq_high := x\<rparr>"
| "track_assign_apply (Set_manual_bpm x) t = t\<lparr>manual_bpm := x\<rparr>"
| "track_assign_apply (Set_is_synced b) t = t\<lparr>is_synced := b\<rparr>"
| "track_assign_apply (Set_cue_points d) t = t\<lparr>cue_points := d\<rparr>"
| "track_assign_apply (Set_hot_cues d) t = t\<lparr>hot_cues := d\<rparr>"

text \<open>
  The track actions share one shape: fetch the object, change it in memory, save it,
  publish. \<open>track_saved\<close> is the in-memory object after \<^verbatim>\<open>save()\<close> has stamped it,
  which the response and the event serialize. The first component of a 200 response
  is the literal part of its message.
\<close>

definition track_saved :: "DJTrackInstance \<Rightarrow> datetime \<Rightarrow> DJTrackInstance" where
  "track_saved t tsave = t\<lparr>DJTrackInstance.updated_at := tsave\<rparr>"

definition update_track ::
  "store \<Rightarrow> user \<Rightarrow> uuid option \<Rightarrow> uuid \<Rightarrow> track_assign list \<Rightarrow> datetime
     \<Rightarrow> DJTrackInstance response \<times> store \<times> published" where
  "update_track st u session_id pk body tsave =
     (case get_track_object st u session_id pk of
        None \<Rightarrow> (Http404, st, [])
      | Some t \<Rightarrow>
          if \<not> list_all track_assign_valid body then (Response400 ''invalid'', st, [])
          else
            let t1 = fold track_assign_apply body t
            in (Response200 [] (track_saved t1 tsave), save_track st t1 tsave,
                [(room_group (DJTrackInstance.session t1),
                  Track_update pk (DJTrackInstance.deck t1) (track_saved t1 tsave))]))"

definition play ::
  "store \<Rightarrow> user \<Rightarrow> uuid option \<Rightarrow> uuid \<Rightarrow> datetime
     \<Rightarrow> DJTrackInstance response \<times> store \<times> published" where
  "play st u session_id pk tsave =
     (case get_track_object st u session_id pk of
        None \<Rightarrow> (Http404, st, [])
      | Some t \<Rightarrow>
          let t1 = t\<lparr>is_playing := True\<rparr>
          in (Response200 ''Track playing'' (track_saved t1 tsave), save_track st t1 tsave,
              [(room_group (DJTrackInstance.session t1),
                Track_event ''track_play'' pk (DJTrackInstance.deck t1) (track_saved t1 tsave))]))"

definition pause ::
  "store \<Rightarrow> user \<Rightarrow> uuid option \<Rightarrow> uuid \<Rightarrow> datetime
     \<Rightarrow> DJTrackInstance response \<times> store \<times> published" where
  "pause st u session_id pk tsave =
     (case get_track_object st u session_id pk of
        None \<Rightarrow> (Http404, st, [])
      | Some t \<Rightarrow>
          let t1 = t\<lparr>is_playing := False\<rparr>
          in (Response200 ''Track paused'' (track_saved t1 tsave), save_track st t1 tsave,
              [(room_group (DJTrackInstance.session t1),
                Track_event ''track_pause'' pk (DJTrackInstance.deck t1) (track_saved t1 tsave))]))"

text \<open>
  \<^verbatim>\<open>seek\<close>: \<open>position\<close> is the body's number after \<^verbatim>\<open>float(...)\<close>, \<open>None\<close> when the
  body has none (the default \<^verbatim>\<open>0\<close>). No bound is checked.
\<close>

definition seek ::
  "store \<Rightarrow> user \<Rightarrow> uuid option \<Rightarrow> uuid \<Rightarrow> real option \<Rightarrow> datetime
     \<Rightarrow> DJTrackInstance response \<times> store \<times> published" where
  "seek st u session_id pk position tsave =
     (case get_track_object st u session_id pk of
        None \<Rightarrow> (Http404, st, [])
      | Some t \<Rightarrow>
          let t1 = t\<lparr>current_position := (case position of None \<Rightarrow> 0 | Some x \<Rightarrow> x)\<rparr>
          in (Response200 ''Seek'' (track_saved t1 tsave), save_track st t1 tsave,
              [(room_group (DJTrackInstance.session t1),
                Track_event ''track_seek'' pk (DJTrackInstance.deck t1) (track_saved t1 tsave))]))"

text \<open>
  \<^verbatim>\<open>add_cue\<close>: \<open>name\<close> and \<open>position\<close> are the body's entries, \<open>None\<close> when the key is
  absent. The position is stored as it came, whatever JSON value it is.
\<close>

definition default_cue_name :: "DJTrackInstance \<Rightarrow> string" where
  "default_cue_name t = ''Cue '' @ str_nat (length (cue_points t) + 1)"

definition add_cue ::
  "store \<Rightarrow> user \<Rightarrow> uuid option \<Rightarrow> uuid \<Rightarrow> string option \<Rightarrow> json option \<Rightarrow> datetime
     \<Rightarrow> DJTrackInstance response \<times> store \<times> published" where
  "add_cue st u session_id pk name position tsave =
     (case get_track_object st u session_id pk of
        None \<Rightarrow> (Http404, st, [])
      | Some t \<Rightarrow>
          let cue_name = (case name of None \<Rightarrow> default_cue_name t | Some n \<Rightarrow> n);
              pos = (case position of None \<Rightarrow> JFloat (current_position t) | Some p \<Rightarrow> p);
              t1 = t\<lparr>cue_points := AList.update cue_name pos (cue_points t)\<rparr>
          in (Response200 cue_name (track_saved t1 tsave), save_track st t1 tsave,
              [(room_group (DJTrackInstance.session t1),
                Track_event ''cue_added'' pk (DJTrackInstance.deck t1) (track_saved t1 tsave))]))"

definition destroy_track ::
  "store \<Rightarrow> user \<Rightarrow> uuid option \<Rightarrow> uuid \<Rightarrow> DJTrackInstance response \<times> store \<times> published" where
  "destroy_track st u session_id pk =
     (case get_track_object st u session_id pk of
        None \<Rightarrow> (Http404, st, [])
      | Some t \<Rightarrow>
          (Response204,
           st\<lparr>tracks := filter (\<lambda>r. DJTrackInstance.id r \<noteq> pk) (tracks st)\<rparr>, []))"

section \<open>AudioLevelSnapshotViewSet and LiveStreamMetricsViewSet (views.py)\<close>

text \<open>
  The serializer checks that the snapshot's session exists and that each of the ten
  levels lies in \<open>[0, 1]\<close>; the key and the timestamp of the row are read-only and
  set on creation.
\<close>

definition snapshot_valid :: "AudioLevelSnapshot \<Rightarrow> bool" where
  "snapshot_valid a =
     list_all unit_range
       [master_left a, master_right a, master_peak_left a, master_peak_right a,
        channel_a_left a, channel_a_right a, channel_b_left a, channel_b_right a,
        channel_a_peak a, channel_b_peak a]"

definition create_audio_levels ::
  "store \<Rightarrow> AudioLevelSnapshot \<Rightarrow> uuid \<Rightarrow> datetime
     \<Rightarrow> AudioLevelSnapshot response \<times> store \<times> published" where
  "create_audio_levels st body new_id now =
     (case sessions st (AudioLevelSnapshot.session body) of
        None \<Rightarrow> (Response400 ''Invalid pk - object does not exist.'', st, [])
      | Some s \<Rightarrow>
          if \<not> snapshot_valid body then (Response400 ''invalid'', st, [])
          else if new_id \<in> set (map AudioLevelSnapshot.id (snapshots st))
          then (Response500, st, [])
          else
            let snapshot = body\<lparr>AudioLevelSnapshot.id := new_id,
                                AudioLevelSnapshot.timestamp := now\<rparr>;
                st1 = st\<lparr>snapshots := snapshots st @ [snapshot]\<rparr>;
                s1 = s\<lparr>master_level_left := master_left snapshot,
                       master_level_right := master_right snapshot,
                       channel_a_level :=
                         py_max (channel_a_left snapshot) (channel_a_right snapshot),
                       channel_b_level :=
                         py_max (channel_b_left snapshot) (channel_b_right snapshot)\<rparr>;
                st2 = save_update_fields st1 (AudioLevelSnapshot.session snapshot) s1
                        [Col_master_level_left, Col_master_level_right,
                         Col_channel_a_level, Col_channel_b_level]
            in (Response201 snapshot, st2,
                [(room_group (AudioLevelSnapshot.session snapshot), Audio_levels snapshot)]))"

definition metrics_valid :: "LiveStreamMetrics \<Rightarrow> bool" where
  "metrics_valid m = unit_range (buffer_health m)"

definition create_stream_metrics ::
  "store \<Rightarrow> LiveStreamMetrics \<Rightarrow> uuid \<Rightarrow> datetime
     \<Rightarrow> LiveStreamMetrics response \<times> store \<times> published" where
  "create_stream_metrics st body new_id now =
     (case sessions st (LiveStreamMetrics.session body) of
        None \<Rightarrow> (Response400 ''Invalid pk - object does not exist.'', st, [])
      | Some s \<Rightarrow>
          if \<not> metrics_valid body then (Response400 ''invalid'', st, [])
          else if new_id \<in> set (map LiveStreamMetrics.id (metrics st))
          then (Response500, st, [])
          else
            let m = body\<lparr>LiveStreamMetrics.id := new_id,
                         LiveStreamMetrics.timestamp := now\<rparr>;
                st1 = st\<lparr>metrics := metrics st @ [m]\<rparr>;
                s1 = s\<lparr>DJSession.current_listeners := LiveStreamMetrics.current_listeners m\<rparr>;
                s2 = (if LiveStreamMetrics.current_listeners m > peak_listeners s1
                      then s1\<lparr>peak_listeners := LiveStreamMetrics.current_listeners m\<rparr>
                      else s1);
                st2 = save_update_fields st1 (LiveStreamMetrics.session m) s2
                        [Col_current_listeners, Col_peak_listeners]
            in (Response201 m, st2,
                [(room_group (LiveStreamMetrics.session m), Stream_metrics m)]))"

section \<open>DJSessionConsumer (consumers.py)\<close>

text \<open>
  The consumer object keeps the attributes \<^verbatim>\<open>connect\<close> sets. What a handler can touch
  is the connection's world: the store, the channel layer's group membership, whether
  the socket has been accepted, the frames \<^verbatim>\<open>self.send\<close> pushed to this socket, and the
  events handed to \<^verbatim>\<open>group_send\<close>. Frames are the dictionaries given to
  \<^verbatim>\<open>json.dumps\<close>.
\<close>

record consumer =
  channel_name :: string
  session_id :: uuid
  room_group_name :: string

record world =
  db :: store
  groups :: "(string \<times> string) set"
  accepted :: bool
  sent :: "json list"
  group_sent :: published

datatype py_exception = KeyError | TypeError | IntegrityError

definition send :: "json \<Rightarrow> world \<Rightarrow> world" where
  "send frame w = w\<lparr>sent := sent w @ [frame]\<rparr>"

definition group_send :: "string \<Rightarrow> event \<Rightarrow> world \<Rightarrow> world" where
  "group_send g e w = w\<lparr>group_sent := group_sent w @ [(g, e)]\<rparr>"

definition group_add :: "string \<Rightarrow> string \<Rightarrow> world \<Rightarrow> world" where
  "group_add g c w = w\<lparr>groups := insert (g, c) (groups w)\<rparr>"

definition group_discard :: "string \<Rightarrow> string \<Rightarrow> world \<Rightarrow> world" where
  "group_discard g c w = w\<lparr>groups := groups w - {(g, c)}\<rparr>"

text \<open>The text form of a point of the time line, for \<^verbatim>\<open>started_at.isoformat()\<close>.\<close>

definition isoformat :: "datetime \<Rightarrow> string" where
  "isoformat t = str_nat t"

definition get_session_data :: "store \<Rightarrow> uuid \<Rightarrow> pydict option" where
  "get_session_data st sid =
     (case sessions st sid of
        None \<Rightarrow> None
      | Some s \<Rightarrow>
          Some [(''id'', JStr sid),
                (''session_name'', JStr (DJSession.session_name s)),
                (''is_live'', JBool (is_live s)),
                (''current_listeners'', JInt (int (DJSession.current_listeners s))),
                (''started_at'', JStr (isoformat (DJSession.started_at s))),
                (''master_volume'', JFloat (master_volume s)),
                (''crossfader_position'', JFloat (crossfader_position s))])"

definition session_connected :: "pydict \<Rightarrow> json" where
  "session_connected session_data =
     JObj [(''type'', JStr ''session_connected''), (''session'', JObj session_data)]"

text \<open>\<^verbatim>\<open>connect\<close>: the route's \<^verbatim>\<open>session_id\<close> and the channel's name come from the scope.\<close>

definition connect :: "string \<Rightarrow> uuid \<Rightarrow> world \<Rightarrow> consumer \<times> world" where
  "connect chan sid w =
     (let self = \<lparr>channel_name = chan, session_id = sid, room_group_name = room_group sid\<rparr>;
          w1 = group_add (room_group_name self) (channel_name self) w;
          w2 = w1\<lparr>accepted := True\<rparr>
      in case get_session_data (db w2) (session_id self) of
           None \<Rightarrow> (self, w2)
         | Some session_data \<Rightarrow>
             if session_data \<noteq> [] then (self, send (session_connected session_data) w2)
             else (self, w2))"

definition disconnect :: "consumer \<Rightarrow> world \<Rightarrow> world" where
  "disconnect self w = group_discard (room_group_name self) (channel_name self) w"

text \<open>
  \<^verbatim>\<open>update_session_listeners\<close>. The count is whatever JSON value the frame carried.
  Python compares it with the stored peak: a number (or a \<^verbatim>\<open>bool\<close>, which is an
  \<^verbatim>\<open>int\<close>) compares, anything else raises \<^verbatim>\<open>TypeError\<close>. The two columns are
  positive-integer columns: on saving, the value is converted with \<^verbatim>\<open>int(...)\<close> and a
  negative one violates the column's check. Only \<^verbatim>\<open>DoesNotExist\<close> is caught.
\<close>

fun py_gt_nat :: "json \<Rightarrow> nat \<Rightarrow> bool option" where
  "py_gt_nat (JInt i) n = Some (i > int n)"
| "py_gt_nat (JBool b) n = Some ((if b then 1 else 0) > n)"
| "py_gt_nat (JFloat r) n = Some (r > real n)"
| "py_gt_nat _ n = None"

fun py_int :: "json \<Rightarrow> int option" where
  "py_int (JInt i) = Some i"
| "py_int (JBool b) = Some (if b then 1 else 0)"
| "py_int (JFloat r) = Some (if r \<ge> 0 then \<lfloor>r\<rfloor> else \<lceil>r\<rceil>)"
| "py_int _ = None"

definition update_session_listeners :: "store \<Rightarrow> uuid \<Rightarrow> json \<Rightarrow> py_exception + store" where
  "update_session_listeners st sid listener_count =
     (case sessions st sid of
        None \<Rightarrow> Inr st
      | Some s \<Rightarrow>
          (case py_gt_nat listener_count (peak_listeners s) of
             None \<Rightarrow> Inl TypeError
           | Some exceeds \<Rightarrow>
               (case py_int listener_count of
                  None \<Rightarrow> Inl TypeError
                | Some i \<Rightarrow>
                    if i < 0 then Inl IntegrityError
                    else
                      let s1 = s\<lparr>DJSession.current_listeners := nat i\<rparr>;
                          s2 = (if exceeds then s1\<lparr>peak_listeners := nat i\<rparr> else s1)
                      in Inr (save_update_fields st sid s2
                                [Col_current_listeners, Col_peak_listeners]))))"

definition handle_audio_levels :: "consumer \<Rightarrow> pydict \<Rightarrow> world \<Rightarrow> py_exception option \<times> world" where
  "handle_audio_levels self data w =
     (None, group_send (room_group_name self)
              (Audio_levels_update (dict_get data ''levels'' (JObj []))) w)"

definition handle_mixer_update :: "consumer \<Rightarrow> pydict \<Rightarrow> world \<Rightarrow> py_exception option \<times> world" where
  "handle_mixer_update self data w =
     (None, group_send (room_group_name self)
              (Mixer_state_update (dict_get data ''mixer'' (JObj []))) w)"

definition handle_track_control :: "consumer \<Rightarrow> pydict \<Rightarrow> world \<Rightarrow> py_exception option \<times> world" where
  "handle_track_control self data w =
     (None, group_send (room_group_name self)
              (Track_control_update (dict_get data ''track'' (JObj []))) w)"

definition handle_listener_update :: "consumer \<Rightarrow> pydict \<Rightarrow> world \<Rightarrow> py_exception option \<times> world" where
  "handle_listener_update self data w =
     (let listener_count = dict_get data ''listeners'' (JInt 0)
      in case update_session_listeners (db w) (session_id self) listener_count of
           Inl e \<Rightarrow> (Some e, w)
         | Inr st \<Rightarrow>
             (None, group_send (room_group_name self) (Listener_count_update listener_count)
                      (w\<lparr>db := st\<rparr>)))"

text \<open>
  \<^verbatim>\<open>receive\<close>. Its argument is what \<^verbatim>\<open>json.loads(text_data)\<close> gives on the frame's text:
  \<open>None\<close> when it raises \<^verbatim>\<open>JSONDecodeError\<close>, the decoded value otherwise. Subscripting
  the decoded value with \<^verbatim>\<open>'type'\<close> raises \<^verbatim>\<open>KeyError\<close> on a dictionary without that
  key and \<^verbatim>\<open>TypeError\<close> on a value that is not a dictionary; the \<^verbatim>\<open>except\<close> clause
  catches neither, so the exception leaves the handler (first component of the result).
\<close>

definition error_frame :: json where
  "error_frame = JObj [(''type'', JStr ''error''), (''message'', JStr ''Invalid JSON format'')]"

fun subscript_type :: "json \<Rightarrow> py_exception + json" where
  "subscript_type (JObj d) = (case map_of d ''type'' of None \<Rightarrow> Inl KeyError | Some v \<Rightarrow> Inr v)"
| "subscript_type _ = Inl TypeError"

fun as_dict :: "json \<Rightarrow> pydict" where
  "as_dict (JObj d) = d"
| "as_dict _ = []"

definition receive :: "consumer \<Rightarrow> json option \<Rightarrow> world \<Rightarrow> py_exception option \<times> world" where
  "receive self loaded w =
     (case loaded of
        None \<Rightarrow> (None, send error_frame w)
      | Some text_data_json \<Rightarrow>
          (case subscript_type text_data_json of
             Inl e \<Rightarrow> (Some e, w)
           | Inr message_type \<Rightarrow>
               if message_type = JStr ''audio_levels''
               then handle_audio_levels self (as_dict text_data_json) w
               else if message_type = JStr ''mixer_update''
               then handle_mixer_update self (as_dict text_data_json) w
               else if message_type = JStr ''track_control''
               then handle_track_control self (as_dict text_data_json) w
               else if message_type = JStr ''listener_update''
               then handle_listener_update self (as_dict text_data_json) w
               else (None, w)))"

section \<open>The store over time\<close>

text \<open>
  Every operation of the REST surface and of the session consumer that writes to the
  store, as one request type; \<open>handle\<close> gives the store after a request, \<open>run\<close> the
  store after a sequence of them, one at a time.
\<close>

datatype request =
    Create_session user session_create_body uuid datetime datetime
  | Update_session user uuid "session_assign list" datetime
  | Destroy_session user uuid
  | Start_session user uuid datetime datetime
  | End_session user uuid datetime datetime datetime
  | Create_track track_create_body uuid datetime datetime
  | Update_track user "uuid option" uuid "track_assign list" datetime
  | Play user "uuid option" uuid datetime
  | Pause user "uuid option" uuid datetime
  | Seek user "uuid option" uuid "real option" datetime
  | Add_cue user "uuid option" uuid "string option" "json option" datetime
  | Destroy_track user "uuid option" uuid
  | Create_audio_levels AudioLevelSnapshot uuid datetime
  | Create_stream_metrics LiveStreamMetrics uuid datetime
  | Listener_update uuid json

fun handle :: "request \<Rightarrow> store \<Rightarrow> store" where
  "handle (Create_session u body new_id now tsave) st =
     fst (snd (create_session st u body new_id now tsave))"
| "handle (Update_session u pk body tsave) st = fst (snd (update_session st u pk body tsave))"
| "handle (Destroy_session u pk) st = fst (snd (destroy_session st u pk))"
| "handle (Start_session u pk now tsave) st = fst (snd (start_session st u pk now tsave))"
| "handle (End_session u pk now tsave now2) st =
     fst (snd (end_session st u pk now tsave now2))"
| "handle (Create_track body new_id now tsave) st =
     fst (snd (create_track st body new_id now tsave))"
| "handle (Update_track u q pk body tsave) st = fst (snd (update_track st u q pk body tsave))"
| "handle (Play u q pk tsave) st = fst (snd (play st u q pk tsave))"
| "handle (Pause u q pk tsave) st = fst (snd (pause st u q pk tsave))"
| "handle (Seek u q pk position tsave) st = fst (snd (seek st u q pk position tsave))"
| "handle (Add_cue u q pk name position tsave) st =
     fst (snd (add_cue st u q pk name position tsave))"
| "handle (Destroy_track u q pk) st = fst (snd (destroy_track st u q pk))"
| "handle (Create_audio_levels body new_id now) st =
     fst (snd (create_audio_levels st body new_id now))"
| "handle (Create_stream_metrics body new_id now) st =
     fst (snd (create_stream_metrics st body new_id now))"
| "handle (Listener_update sid listener_count) st =
     (case update_session_listeners st sid listener_count of Inl e \<Rightarrow> st | Inr st' \<Rightarrow> st')"

definition run :: "store \<Rightarrow> request list \<Rightarrow> store" where
  "run st reqs = fold handle reqs st"

definition empty_store :: store where
  "empty_store = \<lparr>sessions = Map.empty, tracks = [], snapshots = [], metrics = []\<rparr>"

text \<open>
  The active track instances of a deck of a session, and the deck-occupancy property:
  no two active rows share a session and a deck. Keys of the track table are unique.
\<close>

definition active_on :: "store \<Rightarrow> uuid \<Rightarrow> deck \<Rightarrow> DJTrackInstance list" where
  "active_on st sid d =
     filter (\<lambda>t. DJTrackInstance.session t = sid \<and> DJTrackInstance.deck t = d
                \<and> DJTrackInstance.ended_at t = None) (tracks st)"

definition active_decks :: "DJTrackInstance list \<Rightarrow> (uuid \<times> deck) list" where
  "active_decks rows =
     map (\<lambda>t. (DJTrackInstance.session t, DJTrackInstance.deck t))
       (filter (\<lambda>t. DJTrackInstance.ended_at t = None) rows)"

definition deck_occupancy :: "store \<Rightarrow> bool" where
  "deck_occupancy st = distinct (active_decks (tracks st))"

definition track_keys_unique :: "store \<Rightarrow> bool" where
  "track_keys_unique st = distinct (map DJTrackInstance.id (tracks st))"

section \<open>Example stores\<close>

text \<open>
  A store with one session of user 7 that has never gone live, with one track loaded on
  deck A; the same store with the session live; and the messages used below.
\<close>

definition example_session :: DJSession where
  "example_session =
     new_session 7
       \<lparr>session_name = ''Friday'', description = [], station = None,
        sample_rate = 48000, bit_depth = 16, channels = 2\<rparr> 100 100"

definition example_track :: DJTrackInstance where
  "example_track =
     new_track
       \<lparr>session = ''s1'', track = None, track_title = ''Blue'', track_artist = ''Ray'',
        track_duration = None, deck = Deck_A\<rparr> ''t1'' 110 110"

definition example_store :: store where
  "example_store =
     \<lparr>sessions = [''s1'' \<mapsto> example_session], tracks = [example_track],
      snapshots = [], metrics = []\<rparr>"

definition live_store :: store where
  "live_store =
     \<lparr>sessions = [''s1'' \<mapsto> example_session\<lparr>is_live := True\<rparr>],
      tracks = [example_track\<lparr>is_playing := True\<rparr>,
                example_track\<lparr>DJTrackInstance.id := ''t2'', DJTrackInstance.session := ''s2''\<rparr>],
      snapshots = [], metrics = []\<rparr>"

section \<open>Facts about the example stores\<close>

lemma example_store_get:
  "get_session_object example_store 7 ''s1'' = Some example_session"
  by (simp add: get_session_object_def example_store_def example_session_def new_session_def)

lemma live_store_get:
  "get_session_object live_store 7 ''s1'' = Some (example_session\<lparr>is_live := True\<rparr>)"
  by (simp add: get_session_object_def live_store_def example_session_def new_session_def)

lemma example_session_not_live: "\<not> is_live example_session"
  by (simp add: example_session_def new_session_def)

section \<open>Starting a session\<close>

text \<open>
  Claim C6. For a session the caller owns: when it is already live, \<^verbatim>\<open>start_session\<close>
  answers 400 "Session is already live", leaves the store as it was and publishes
  nothing; when it is not live, the stored session becomes live with \<^verbatim>\<open>started_at\<close>
  reset to the current time (and \<^verbatim>\<open>updated_at\<close> stamped by the save), every other
  field unchanged, and a \<^verbatim>\<open>session_started\<close> event is published to the session's group.
\<close>

theorem start_session_spec:
  assumes "get_session_object st u pk = Some s"
  shows "(is_live s \<longrightarrow>
            start_session st u pk now tsave = (Response400 ''Session is already live'', st, []))
       \<and> (\<not> is_live s \<longrightarrow>
            (\<exists>s'. start_session st u pk now tsave =
                    (Response200 ''Session started'' s',
                     st\<lparr>sessions := (sessions st)(pk \<mapsto> s')\<rparr>,
                     [(room_group pk, Session_event ''session_started'' pk s')])
                 \<and> is_live s' \<and> DJSession.started_at s' = now
                 \<and> s' = s\<lparr>is_live := True, DJSession.started_at := now,
                            DJSession.updated_at := tsave\<rparr>))"
  using assms by (simp add: start_session_def save_session_def Let_def)

theorem start_session_spec_witness:
  "get_session_object example_store 7 ''s1'' = Some example_session
   \<and> \<not> is_live example_session
   \<and> is_live (the (sessions (fst (snd (start_session example_store 7 ''s1'' 200 201))) ''s1''))
   \<and> get_session_object live_store 7 ''s1'' = Some (example_session\<lparr>is_live := True\<rparr>)
   \<and> start_session live_store 7 ''s1'' 200 201 =
       (Response400 ''Session is already live'', live_store, [])"
proof -
  note a = example_store_get and b = live_store_get and c = example_session_not_live
  from start_session_spec [OF a, of 200 201] c
  obtain s' where
    "start_session example_store 7 ''s1'' 200 201 =
       (Response200 ''Session started'' s',
        example_store\<lparr>sessions := (sessions example_store)(''s1'' \<mapsto> s')\<rparr>,
        [(room_group ''s1'', Session_event ''session_started'' ''s1'' s')])"
    and "is_live s'"
    by blast
  then have d:
    "is_live (the (sessions (fst (snd (start_session example_store 7 ''s1'' 200 201))) ''s1''))"
    by simp
  from start_session_spec [OF b, of 200 201]
  have e: "start_session live_store 7 ''s1'' 200 201 =
             (Response400 ''Session is already live'', live_store, [])"
    by simp
  from a b c d e show ?thesis by blast
qed

section \<open>Ending a session\<close>

lemma end_active_tracks_length: "length (end_active_tracks pk now2 rows) = length rows"
  by (simp add: end_active_tracks_def)

lemma end_active_tracks_nth:
  "i < length rows \<Longrightarrow>
   end_active_tracks pk now2 rows ! i =
     (if DJTrackInstance.session (rows ! i) = pk \<and> DJTrackInstance.ended_at (rows ! i) = None
      then (rows ! i)\<lparr>DJTrackInstance.ended_at := Some now2, is_playing := False\<rparr>
      else rows ! i)"
  by (simp add: end_active_tracks_def)

lemma end_active_tracks_none_active:
  assumes "t \<in> set (end_active_tracks pk now2 rows)" and "DJTrackInstance.session t = pk"
  shows "DJTrackInstance.ended_at t \<noteq> None"
proof -
  from assms(1) obtain r where
    t: "t = (if DJTrackInstance.session r = pk \<and> DJTrackInstance.ended_at r = None
             then r\<lparr>DJTrackInstance.ended_at := Some now2, is_playing := False\<rparr> else r)"
    unfolding end_active_tracks_def set_map by blast
  show ?thesis
  proof (cases "DJTrackInstance.session r = pk \<and> DJTrackInstance.ended_at r = None")
    case True
    with t show ?thesis by simp
  next
    case False
    with t have "t = r" by simp
    with False assms(2) show ?thesis by simp
  qed
qed

lemma end_session_live:
  "get_session_object st u pk = Some s \<Longrightarrow> is_live s \<Longrightarrow>
   end_session st u pk now tsave now2 =
     (Response200 ''Session ended''
        (s\<lparr>is_live := False, DJSession.ended_at := Some now, DJSession.updated_at := tsave\<rparr>),
      st\<lparr>sessions := (sessions st)(pk \<mapsto>
             s\<lparr>is_live := False, DJSession.ended_at := Some now, DJSession.updated_at := tsave\<rparr>),
         tracks := end_active_tracks pk now2 (tracks st)\<rparr>,
      [(room_group pk, Session_event ''session_ended'' pk
          (s\<lparr>is_live := False, DJSession.ended_at := Some now, DJSession.updated_at := tsave\<rparr>))])"
  by (simp add: end_session_def save_session_def Let_def)

text \<open>
  Claim C2. For a session the caller owns: when it is not live, \<^verbatim>\<open>end_session\<close>
  answers 400 "Session is not currently live" and leaves the whole store as it was;
  when it is live, the stored session gets \<^verbatim>\<open>is_live = False\<close> and \<^verbatim>\<open>ended_at\<close> set to
  the current time, every track instance of that session that had no \<^verbatim>\<open>ended_at\<close>
  gets one and \<^verbatim>\<open>is_playing = False\<close>, every other track row (of another session, or
  already ended) is untouched, and afterwards no track instance of the session is
  active.
\<close>

theorem end_session_spec:
  assumes "get_session_object st u pk = Some s"
  shows "(\<not> is_live s \<longrightarrow>
            end_session st u pk now tsave now2 =
              (Response400 ''Session is not currently live'', st, []))
       \<and> (is_live s \<longrightarrow>
            (\<exists>s' st'. end_session st u pk now tsave now2 =
                    (Response200 ''Session ended'' s', st',
                     [(room_group pk, Session_event ''session_ended'' pk s')])
                 \<and> sessions st' = (sessions st)(pk \<mapsto> s')
                 \<and> s' = s\<lparr>is_live := False, DJSession.ended_at := Some now,
                            DJSession.updated_at := tsave\<rparr>
                 \<and> \<not> is_live s' \<and> DJSession.ended_at s' = Some now \<and> \<not> is_active s'
                 \<and> length (tracks st') = length (tracks st)
                 \<and> (\<forall>i < length (tracks st).
                       tracks st' ! i =
                         (if DJTrackInstance.session (tracks st ! i) = pk
                             \<and> DJTrackInstance.ended_at (tracks st ! i) = None
                          then (tracks st ! i)\<lparr>DJTrackInstance.ended_at := Some now2,
                                                 is_playing := False\<rparr>
                          else tracks st ! i))
                 \<and> (\<forall>t \<in> set (tracks st').
                       DJTrackInstance.session t = pk \<longrightarrow> DJTrackInstance.ended_at t \<noteq> None)
                 \<and> snapshots st' = snapshots st \<and> metrics st' = metrics st))"
proof (intro conjI impI)
  assume "\<not> is_live s"
  with assms show "end_session st u pk now tsave now2 =
              (Response400 ''Session is not currently live'', st, [])"
    by (simp add: end_session_def)
next
  assume live: "is_live s"
  define s' where "s' = s\<lparr>is_live := False, DJSession.ended_at := Some now,
                            DJSession.updated_at := tsave\<rparr>"
  define st' where "st' = st\<lparr>sessions := (sessions st)(pk \<mapsto> s'),
                  tracks := end_active_tracks pk now2 (tracks st)\<rparr>"
  have eq: "end_session st u pk now tsave now2 =
          (Response200 ''Session ended'' s', st',
           [(room_group pk, Session_event ''session_ended'' pk s')])"
    unfolding s'_def st'_def by (rule end_session_live [OF assms live])
  have a: "sessions st' = (sessions st)(pk \<mapsto> s')" by (simp add: st'_def)
  have b: "\<not> is_live s'" "DJSession.ended_at s' = Some now" "\<not> is_active s'"
    by (simp_all add: s'_def is_active_def)
  have c: "length (tracks st') = length (tracks st)"
    by (simp add: st'_def end_active_tracks_length)
  have d: "\<forall>i < length (tracks st).
                       tracks st' ! i =
                         (if DJTrackInstance.session (tracks st ! i) = pk
                             \<and> DJTrackInstance.ended_at (tracks st ! i) = None
                          then (tracks st ! i)\<lparr>DJTrackInstance.ended_at := Some now2,
                                                 is_playing := False\<rparr>
                          else tracks st ! i)"
    by (simp add: st'_def end_active_tracks_nth)
  have e: "\<forall>t \<in> set (tracks st').
             DJTrackInstance.session t = pk \<longrightarrow> DJTrackInstance.ended_at t \<noteq> None"
    using end_active_tracks_none_active by (simp add: st'_def)
  have f: "snapshots st' = snapshots st" "metrics st' = metrics st"
    by (simp_all add: st'_def)
  from eq a b c d e f s'_def
  show "\<exists>s' st'. end_session st u pk now tsave now2 =
                    (Response200 ''Session ended'' s', st',
                     [(room_group pk, Session_event ''session_ended'' pk s')])
                 \<and> sessions st' = (sessions st)(pk \<mapsto> s')
                 \<and> s' = s\<lparr>is_live := False, DJSession.ended_at := Some now,
                            DJSession.updated_at := tsave\<rparr>
                 \<and> \<not> is_live s' \<and> DJSession.ended_at s' = Some now \<and> \<not> is_active s'
                 \<and> length (tracks st') = length (tracks st)
                 \<and> (\<forall>i < length (tracks st).
                       tracks st' ! i =
                         (if DJTrackInstance.session (tracks st ! i) = pk
                             \<and> DJTrackInstance.ended_at (tracks st ! i) = None
                          then (tracks st ! i)\<lparr>DJTrackInstance.ended_at := Some now2,
                                                 is_playing := False\<rparr>
                          else tracks st ! i))
                 \<and> (\<forall>t \<in> set (tracks st').
                       DJTrackInstance.session t = pk \<longrightarrow> DJTrackInstance.ended_at t \<noteq> None)
                 \<and> snapshots st' = snapshots st \<and> metrics st' = metrics st"
    by blast
qed

theorem end_session_spec_witness:
  "get_session_object live_store 7 ''s1'' = Some (example_session\<lparr>is_live := True\<rparr>)
   \<and> tracks (fst (snd (end_session live_store 7 ''s1'' 300 301 302))) ! 0 =
       example_track\<lparr>is_playing := False, DJTrackInstance.ended_at := Some 302\<rparr>
   \<and> tracks (fst (snd (end_session live_store 7 ''s1'' 300 301 302))) ! 1 =
       example_track\<lparr>DJTrackInstance.id := ''t2'', DJTrackInstance.session := ''s2''\<rparr>
   \<and> get_session_object example_store 7 ''s1'' = Some example_session
   \<and> end_session example_store 7 ''s1'' 300 301 302 =
       (Response400 ''Session is not currently live'', example_store, [])"
proof -
  note a = example_store_get and b = live_store_get and c = example_session_not_live
  have live: "is_live (example_session\<lparr>is_live := True\<rparr>)" by simp
  from end_session_spec [OF b, of 300 301 302, THEN conjunct2, THEN mp, OF live]
  obtain s' st' where r: "end_session live_store 7 ''s1'' 300 301 302 =
        (Response200 ''Session ended'' s', st',
         [(room_group ''s1'', Session_event ''session_ended'' ''s1'' s')])"
     and nth: "\<forall>i < length (tracks live_store).
                       tracks st' ! i =
                         (if DJTrackInstance.session (tracks live_store ! i) = ''s1''
                             \<and> DJTrackInstance.ended_at (tracks live_store ! i) = None
                          then (tracks live_store ! i)\<lparr>DJTrackInstance.ended_at := Some 302,
                                                 is_playing := False\<rparr>
                          else tracks live_store ! i)"
    by blast
  have st': "fst (snd (end_session live_store 7 ''s1'' 300 301 302)) = st'"
    by (simp add: r)
  have l2: "length (tracks live_store) = 2" by (simp add: live_store_def)
  have t0: "tracks live_store ! 0 = example_track\<lparr>is_playing := True\<rparr>"
    and t1: "tracks live_store ! 1 =
             example_track\<lparr>DJTrackInstance.id := ''t2'', DJTrackInstance.session := ''s2''\<rparr>"
    by (simp_all add: live_store_def)
  from nth l2 have "tracks st' ! 0 =
                         (if DJTrackInstance.session (tracks live_store ! 0) = ''s1''
                             \<and> DJTrackInstance.ended_at (tracks live_store ! 0) = None
                          then (tracks live_store ! 0)\<lparr>DJTrackInstance.ended_at := Some 302,
                                                 is_playing := False\<rparr>
                          else tracks live_store ! 0)"
    by simp
  then have n0: "tracks st' ! 0 =
                   example_track\<lparr>is_playing := False, DJTrackInstance.ended_at := Some 302\<rparr>"
    unfolding t0 by (simp add: example_track_def new_track_def)
  from nth l2 have "tracks st' ! 1 =
                         (if DJTrackInstance.session (tracks live_store ! 1) = ''s1''
                             \<and> DJTrackInstance.ended_at (tracks live_store ! 1) = None
                          then (tracks live_store ! 1)\<lparr>DJTrackInstance.ended_at := Some 302,
                                                 is_playing := False\<rparr>
                          else tracks live_store ! 1)"
    by simp
  then have n1: "tracks st' ! 1 =
       example_track\<lparr>DJTrackInstance.id := ''t2'', DJTrackInstance.session := ''s2''\<rparr>"
    unfolding t1 by (simp add: example_track_def new_track_def)
  from end_session_spec [OF a, of 300 301 302, THEN conjunct1, THEN mp, OF c]
  have e: "end_session example_store 7 ''s1'' 300 301 302 =
       (Response400 ''Session is not currently live'', example_store, [])" .
  from a b n0 n1 e show ?thesis unfolding st' by blast
qed

end
